theory Spec2Isabelle
  imports Main "HOL-Library.Sublist" "HOL-Library.Product_Lexorder"
begin

section \<open>Cells, text and errors\<close>

text \<open>
  A pandas cell of a text column is either a string or absent (NaN): \<open>string option\<close>.
  Strings are lists of 8-bit characters; the text functions below are Python's
  \<open>str\<close> methods on ASCII text.  An exception that leaves a function is a value
  \<open>Inl e\<close> of the result.
\<close>

datatype py_error = FileNotFoundError | PermissionError | ParserError | ValueError

type_synonym cell = "string option"

text \<open>\<open>Series.dropna()\<close>: the cells that are present, in order.\<close>

definition dropna :: "'a option list \<Rightarrow> 'a list" where
  "dropna col = List.map_filter (\<lambda>c. c) col"

text \<open>
  Python's \<open>str.isspace\<close> on the ASCII range: tab, line feed, vertical tab, form feed,
  carriage return, the four separators 28 to 31, and the space.
\<close>

definition isspace :: "char \<Rightarrow> bool" where
  "isspace c = (of_char c \<in> {9, 10, 11, 12, 13, 28, 29, 30, 31, 32 :: nat})"

text \<open>\<open>s.strip()\<close>: whitespace removed at both ends.\<close>

definition strip :: "string \<Rightarrow> string" where
  "strip s = rev (dropWhile isspace (rev (dropWhile isspace s)))"

text \<open>
  \<open>s.split(sep)\<close> for a non-empty separator: the text is cut at every occurrence of
  \<open>sep\<close>, found from the left, and the pieces are kept even when empty.  \<open>acc\<close>
  holds the current piece, reversed.  (An empty separator raises, see \<open>split\<close>.)
\<close>

function split_from :: "string \<Rightarrow> string \<Rightarrow> string \<Rightarrow> string list" where
  "split_from sep acc [] = [rev acc]"
| "split_from sep acc (c # cs) =
     (if sep \<noteq> [] \<and> prefix sep (c # cs)
      then rev acc # split_from sep [] (drop (length sep) (c # cs))
      else split_from sep (c # acc) cs)"
  by pat_completeness auto
termination
  by (relation "measure (\<lambda>(sep, acc, s). length s)") auto

definition split :: "string \<Rightarrow> string \<Rightarrow> py_error + string list" where
  "split s sep = (if sep = [] then Inl ValueError else Inr (split_from sep [] s))"

text \<open>\<open>sep in s\<close>: substring test.\<close>

definition contains_str :: "string \<Rightarrow> string \<Rightarrow> bool" where
  "contains_str sep s = list_ex (prefix sep) (suffixes s)"

section \<open>Frequency tables\<close>

text \<open>
  \<open>pd.Series(items).value_counts()\<close>: one pass tallies the items, keeping the keys in
  the order in which they are first met; the table is then sorted by count, largest
  first.  The sort is taken to be stable, so that keys with equal counts stay in
  first-met order.
\<close>

fun bump :: "'a \<Rightarrow> ('a \<times> nat) list \<Rightarrow> ('a \<times> nat) list" where
  "bump k [] = [(k, 1)]"
| "bump k ((k', c) # kvs) = (if k = k' then (k', Suc c) # kvs else (k', c) # bump k kvs)"

definition tally :: "'a list \<Rightarrow> ('a \<times> nat) list" where
  "tally xs = foldl (\<lambda>acc k. bump k acc) [] xs"

definition value_counts :: "'a list \<Rightarrow> ('a \<times> nat) list" where
  "value_counts xs = sort_key (\<lambda>kc. - int (snd kc)) (tally xs)"

text \<open>\<open>.head(n)\<close> for a count \<open>n \<ge> 0\<close>.\<close>

definition head :: "nat \<Rightarrow> 'a list \<Rightarrow> 'a list" where
  "head n xs = take n xs"

subsection \<open>\<open>extract_top_items\<close> (utils/helpers.py)\<close>

text \<open>
  The loop of \<open>extract_top_items\<close>: every present cell adds its tokens to
  \<open>all_items\<close>.  A cell that holds the separator is split and each piece stripped;
  any other cell is stripped whole.  Nothing removes an empty piece.
\<close>

definition cell_items :: "string \<Rightarrow> string \<Rightarrow> py_error + string list" where
  "cell_items sep items =
     (if contains_str sep items
      then (case split items sep of Inl e \<Rightarrow> Inl e | Inr parts \<Rightarrow> Inr (map strip parts))
      else Inr [strip items])"

fun collect_items :: "string \<Rightarrow> string list \<Rightarrow> string list \<Rightarrow> py_error + string list" where
  "collect_items sep all_items [] = Inr all_items"
| "collect_items sep all_items (items # rest) =
     (case cell_items sep items of
        Inl e \<Rightarrow> Inl e
      | Inr ts \<Rightarrow> collect_items sep (all_items @ ts) rest)"

definition extract_top_items :: "cell list \<Rightarrow> nat \<Rightarrow> string \<Rightarrow> py_error + (string \<times> nat) list" where
  "extract_top_items series top_n sep =
     (case collect_items sep [] (dropna series) of
        Inl e \<Rightarrow> Inl e
      | Inr all_items \<Rightarrow> Inr (head top_n (value_counts all_items)))"

subsection \<open>\<open>genre_counts\<close> (app.py, tab 2)\<close>

text \<open>
  The genre table of the dashboard: every present \<open>listed_in\<close> cell is split on the
  comma and each piece stripped; the fifteen most frequent tokens are kept.
\<close>

definition split_comma :: "string \<Rightarrow> string list" where
  "split_comma s = map strip (split_from '','' [] s)"

definition all_genres :: "cell list \<Rightarrow> string list" where
  "all_genres listed_in_col = concat (map split_comma (dropna listed_in_col))"

definition genre_counts :: "cell list \<Rightarrow> (string \<times> nat) list" where
  "genre_counts listed_in_col = head 15 (value_counts (all_genres listed_in_col))"

text \<open>
  The order of first appearance, used to state how ties are ordered: the first
  occurrence of every element is kept, later ones are dropped.
\<close>

primrec first_seen :: "'a list \<Rightarrow> 'a list" where
  "first_seen [] = []"
| "first_seen (x # xs) = x # removeAll x (first_seen xs)"

section \<open>The catalog\<close>

text \<open>
  A line of \<open>netflix_titles.csv\<close> as \<open>pd.read_csv\<close> delivers it: every field is
  text or absent.  (The record has all the columns the script reads; a file that
  lacks one of them is outside the model.)
\<close>

record csv_row =
  csv_type :: cell
  csv_title :: cell
  csv_director :: cell
  csv_cast :: cell
  csv_country :: cell
  csv_date_added :: cell
  csv_release_year :: cell
  csv_rating :: cell
  csv_duration :: cell
  csv_listed_in :: cell
  csv_description :: cell

text \<open>A parsed timestamp, read through \<open>.dt.year\<close> and \<open>.dt.month\<close>.\<close>

record date =
  year :: int
  month :: int
  day :: int

text \<open>
  A row of the data frame after cleaning.  \<open>date_added\<close> is a timestamp or NaT,
  \<open>release_year\<close> a number or NaN (the years of the file are whole numbers),
  \<open>year_added\<close> and \<open>month_added\<close> are the two columns the cleaning adds.
\<close>

record row =
  type :: cell
  title :: cell
  director :: cell
  cast :: cell
  country :: cell
  date_added :: "date option"
  release_year :: "int option"
  rating :: cell
  duration :: cell
  listed_in :: cell
  description :: cell
  year_added :: "int option"
  month_added :: "int option"

text \<open>\<open>Series.fillna(v)\<close> on one cell.\<close>

definition fillna :: "'a \<Rightarrow> 'a option \<Rightarrow> 'a option" where
  "fillna v c = (case c of None \<Rightarrow> Some v | Some x \<Rightarrow> Some x)"

text \<open>
  The cleaning steps of \<open>load_data\<close> (app.py, the body of the \<open>try\<close>).
  \<open>pd.to_datetime(_, errors='coerce')\<close> and \<open>pd.to_numeric(_, errors='coerce')\<close>
  are library functions on whole columns and are parameters here; they return
  \<open>None\<close> where a cell cannot be parsed.  The two derived columns are read off the
  parsed \<open>date_added\<close> column.
\<close>

definition clean_row :: "bool \<Rightarrow> csv_row \<times> date option \<times> int option \<Rightarrow> row" where
  "clean_row fill_people = (\<lambda>(r, d, y).
     \<lparr> type = csv_type r,
       title = csv_title r,
       director = (if fill_people then fillna ''Unknown'' (csv_director r) else csv_director r),
       cast = (if fill_people then fillna ''Unknown'' (csv_cast r) else csv_cast r),
       country = fillna ''Unknown'' (csv_country r),
       date_added = d,
       release_year = y,
       rating = fillna ''Not Rated'' (csv_rating r),
       duration = fillna ''Unknown'' (csv_duration r),
       listed_in = csv_listed_in r,
       description = csv_description r,
       year_added = map_option year d,
       month_added = map_option month d \<rparr>)"

definition clean_columns ::
  "bool \<Rightarrow> (cell list \<Rightarrow> date option list) \<Rightarrow> (cell list \<Rightarrow> int option list) \<Rightarrow>
   csv_row list \<Rightarrow> row list" where
  "clean_columns fill_people to_datetime to_numeric raw =
     (let dates = to_datetime (map csv_date_added raw);
          years = to_numeric (map csv_release_year raw)
      in map (clean_row fill_people) (zip raw (zip dates years)))"

text \<open>
  \<open>clean_netflix_data\<close> (utils/helpers.py) works on a copy and also fills
  \<open>director\<close> and \<open>cast\<close>.
\<close>

definition clean_netflix_data ::
  "(cell list \<Rightarrow> date option list) \<Rightarrow> (cell list \<Rightarrow> int option list) \<Rightarrow>
   csv_row list \<Rightarrow> row list" where
  "clean_netflix_data = clean_columns True"

text \<open>
  \<open>load_data\<close> (app.py).  \<open>read_csv\<close> is the outcome of
  \<open>pd.read_csv("netflix_titles.csv")\<close>: the lines of the file, or the exception it
  raises.  The result is the list of messages shown with \<open>st.error\<close> and what the
  function returns or raises.  Only \<open>FileNotFoundError\<close> is caught.
\<close>

definition not_found_message :: string where
  "not_found_message = [CHR 0xE2, CHR 0x9D, CHR 0x8C] @
     '' netflix_titles.csv file not found. Please ensure the file is in the same directory.''"

definition load_data ::
  "(cell list \<Rightarrow> date option list) \<Rightarrow> (cell list \<Rightarrow> int option list) \<Rightarrow>
   py_error + csv_row list \<Rightarrow> string list \<times> (py_error + row list)" where
  "load_data to_datetime to_numeric read_csv =
     (case read_csv of
        Inr raw \<Rightarrow> ([], Inr (clean_columns False to_datetime to_numeric raw))
      | Inl e \<Rightarrow>
          if e = FileNotFoundError then ([not_found_message], Inr [])
          else ([], Inl e))"

section \<open>Filters\<close>

text \<open>The sidebar widgets and the widgets of the detail tab.\<close>

record widgets =
  content_type :: "cell list"
  ratings :: "cell list"
  year_range :: "int \<times> int"
  search_query :: string
  selected_genre :: string
  selected_country :: string

text \<open>
  Boolean columns: \<open>isin\<close>, the comparisons (false on NaN), \<open>&\<close>, \<open>|\<close>, and
  indexing a frame by a boolean column.
\<close>

definition isin :: "'a list \<Rightarrow> 'a list \<Rightarrow> bool list" where
  "isin col vals = map (\<lambda>c. c \<in> set vals) col"

definition ge_col :: "int option list \<Rightarrow> int \<Rightarrow> bool list" where
  "ge_col col v = map (\<lambda>c. case c of None \<Rightarrow> False | Some y \<Rightarrow> v \<le> y) col"

definition le_col :: "int option list \<Rightarrow> int \<Rightarrow> bool list" where
  "le_col col v = map (\<lambda>c. case c of None \<Rightarrow> False | Some y \<Rightarrow> y \<le> v) col"

definition and_mask :: "bool list \<Rightarrow> bool list \<Rightarrow> bool list" where
  "and_mask a b = map2 (\<and>) a b"

definition or_mask :: "bool list \<Rightarrow> bool list \<Rightarrow> bool list" where
  "or_mask a b = map2 (\<or>) a b"

definition boolean_index :: "'a list \<Rightarrow> bool list \<Rightarrow> 'a list" where
  "boolean_index frame keep = map fst (filter snd (zip frame keep))"

text \<open>
  The two frames of the script after line 102: the catalog \<open>df\<close> and the view
  \<open>filtered_df\<close> made from it.
\<close>

record session =
  df :: "row list"
  filtered_df :: "row list"

definition apply_filters :: "widgets \<Rightarrow> row list \<Rightarrow> session" where
  "apply_filters w d =
     \<lparr> df = d,
       filtered_df = boolean_index d
         (and_mask
           (and_mask
             (and_mask (isin (map type d) (content_type w)) (isin (map rating d) (ratings w)))
             (ge_col (map release_year d) (fst (year_range w))))
           (le_col (map release_year d) (snd (year_range w)))) \<rparr>"

text \<open>
  The script from \<open>df = load_data()\<close> to the filtered view.  It stops when the frame
  is empty; the slider needs \<open>int(df['release_year'].min())\<close>, which raises when no
  year is present; an exception of \<open>load_data\<close> is not caught.  Every chart and
  metric is computed from the session of \<open>Rendered\<close>.
\<close>

datatype outcome = Stopped "string list" | Uncaught py_error | Rendered "string list" session

definition run ::
  "(cell list \<Rightarrow> date option list) \<Rightarrow> (cell list \<Rightarrow> int option list) \<Rightarrow>
   py_error + csv_row list \<Rightarrow> widgets \<Rightarrow> outcome" where
  "run to_datetime to_numeric read_csv w =
     (case load_data to_datetime to_numeric read_csv of
        (msgs, Inl e) \<Rightarrow> Uncaught e
      | (msgs, Inr d) \<Rightarrow>
          if d = [] then Stopped msgs
          else if dropna (map release_year d) = [] then Uncaught ValueError
          else Rendered msgs (apply_filters w d))"

section \<open>Geographical analysis\<close>

text \<open>
  \<open>country_counts\<close> (app.py, tab 3): a present cell that is exactly \<open>Unknown\<close> is
  passed over; any other cell is split on the comma and each piece stripped.  The
  twenty most frequent tokens are kept.
\<close>

definition all_countries :: "cell list \<Rightarrow> string list" where
  "all_countries country_col =
     concat (map (\<lambda>countries. if countries \<noteq> ''Unknown'' then split_comma countries else [])
                 (dropna country_col))"

definition country_counts :: "row list \<Rightarrow> (string \<times> nat) list" where
  "country_counts view = head 20 (value_counts (all_countries (map country view)))"

section \<open>Trends over time\<close>

text \<open>
  \<open>groupby(['year_added', 'month_added']).size()\<close>: rows with an absent key are
  left out, every pair of keys that occurs gets one line with its number of rows, and
  the lines are sorted by key.
\<close>

definition group_keys :: "row list \<Rightarrow> (int \<times> int) list" where
  "group_keys view =
     List.map_filter
       (\<lambda>r. case year_added r of
               None \<Rightarrow> None
             | Some y \<Rightarrow> (case month_added r of None \<Rightarrow> None | Some m \<Rightarrow> Some (y, m)))
       view"

definition heatmap_data :: "row list \<Rightarrow> ((int \<times> int) \<times> nat) list" where
  "heatmap_data view =
     (let keys = group_keys view
      in map (\<lambda>k. (k, count_list keys k)) (sort (remdups keys)))"

text \<open>
  \<open>pivot(index='month_added', columns='year_added', values='count').fillna(0)\<close>:
  the row labels are the months of the grouped table, the column labels its years,
  both sorted; a cell holds the count of its (year, month) line, and where the
  grouped table has no such line, the 0 that \<open>fillna\<close> puts in place of NaN.
\<close>

record pivot_table =
  index :: "int list"
  columns :: "int list"
  cells :: "nat list list"

definition heatmap_pivot :: "row list \<Rightarrow> pivot_table" where
  "heatmap_pivot view =
     (let grouped = heatmap_data view;
          months = sort (remdups (map (\<lambda>(k, c). snd k) grouped));
          years = sort (remdups (map (\<lambda>(k, c). fst k) grouped))
      in \<lparr> index = months,
           columns = years,
           cells = map (\<lambda>m. map (\<lambda>y. case map_of grouped (y, m) of None \<Rightarrow> 0 | Some c \<Rightarrow> c)
                                  years)
                       months \<rparr>)"

text \<open>
  Reading one cell of a pivot table by its labels, \<open>table.loc[m, y]\<close>; a label that
  the table does not have is a \<open>KeyError\<close>, here \<open>None\<close>.
\<close>

fun index_of :: "'a \<Rightarrow> 'a list \<Rightarrow> nat option" where
  "index_of x [] = None"
| "index_of x (y # ys) = (if x = y then Some 0 else map_option Suc (index_of x ys))"

definition loc :: "pivot_table \<Rightarrow> int \<Rightarrow> int \<Rightarrow> nat option" where
  "loc t m y =
     (case index_of m (index t) of
        None \<Rightarrow> None
      | Some i \<Rightarrow> (case index_of y (columns t) of
                    None \<Rightarrow> None
                  | Some j \<Rightarrow> Some (cells t ! i ! j)))"

text \<open>
  \<open>monthly_data\<close>: the months are counted with \<open>value_counts\<close>, and the table has
  one line for each of the twelve month numbers, \<open>monthly_added.get(i, 0)\<close>.
\<close>

definition month_names :: "string list" where
  "month_names = [''Jan'', ''Feb'', ''Mar'', ''Apr'', ''May'', ''Jun'',
                  ''Jul'', ''Aug'', ''Sep'', ''Oct'', ''Nov'', ''Dec'']"

definition monthly_added :: "row list \<Rightarrow> (int \<times> nat) list" where
  "monthly_added view = sort_key fst (value_counts (dropna (map month_added view)))"

definition monthly_data :: "row list \<Rightarrow> (string \<times> nat) list" where
  "monthly_data view =
     zip month_names
         (map (\<lambda>i. case map_of (monthly_added view) i of None \<Rightarrow> 0 | Some c \<Rightarrow> c) [1..12])"

section \<open>Detail search\<close>

text \<open>
  \<open>Series.str.contains(pat, case=_, na=False)\<close> reads \<open>pat\<close> as a regular
  expression (\<open>regex=True\<close> is the default and the script does not change it) and
  searches every present cell for a match; an absent cell gives \<open>False\<close>.

  Of Python's expressions the model covers those made of ordinary characters and the
  dot: an ordinary character stands for itself, the dot for any character but the line
  feed.  A pattern that holds another special character is outside the model:
  \<open>re_parse\<close> gives \<open>None\<close> and so does everything built on it.
\<close>

datatype re_item = Literal char | AnyChar

definition re_special :: "char \<Rightarrow> bool" where
  "re_special c = (c \<in> set ''.^$*+?{}[]|()'' \<or> c = CHR 0x5C)"

fun re_parse :: "string \<Rightarrow> re_item list option" where
  "re_parse [] = Some []"
| "re_parse (c # cs) =
     (if c = CHR ''.'' then map_option (Cons AnyChar) (re_parse cs)
      else if re_special c then None
      else map_option (Cons (Literal c)) (re_parse cs))"

text \<open>\<open>str.lower\<close> on ASCII letters; \<open>case=False\<close> compares characters up to it.\<close>

definition lower :: "char \<Rightarrow> char" where
  "lower c = (let n = of_char c :: nat in if 65 \<le> n \<and> n \<le> 90 then char_of (n + 32) else c)"

fun item_matches :: "bool \<Rightarrow> re_item \<Rightarrow> char \<Rightarrow> bool" where
  "item_matches case_sensitive AnyChar c = (c \<noteq> CHR 0x0A)"
| "item_matches case_sensitive (Literal a) c =
     (if case_sensitive then a = c else lower a = lower c)"

fun match_here :: "bool \<Rightarrow> re_item list \<Rightarrow> string \<Rightarrow> bool" where
  "match_here case_sensitive [] s = True"
| "match_here case_sensitive (i # items) [] = False"
| "match_here case_sensitive (i # items) (c # s) =
     (item_matches case_sensitive i c \<and> match_here case_sensitive items s)"

definition re_search :: "bool \<Rightarrow> re_item list \<Rightarrow> string \<Rightarrow> bool" where
  "re_search case_sensitive items s = list_ex (match_here case_sensitive items) (suffixes s)"

definition str_contains :: "cell list \<Rightarrow> string \<Rightarrow> bool \<Rightarrow> bool list option" where
  "str_contains col pat case_sensitive =
     map_option
       (\<lambda>items. map (\<lambda>c. case c of None \<Rightarrow> False | Some s \<Rightarrow> re_search case_sensitive items s)
                     col)
       (re_parse pat)"

text \<open>
  \<open>detailed_df\<close> (app.py, tab 5): the view, narrowed by the query when it is not
  empty, then by the genre and the country unless they are \<open>All\<close>.
\<close>

definition search_rows :: "string \<Rightarrow> row list \<Rightarrow> row list option" where
  "search_rows query view =
     (if query \<noteq> [] then
        (case str_contains (map title view) query False of
           None \<Rightarrow> None
         | Some in_title \<Rightarrow>
            (case str_contains (map director view) query False of
               None \<Rightarrow> None
             | Some in_director \<Rightarrow>
                (case str_contains (map cast view) query False of
                   None \<Rightarrow> None
                 | Some in_cast \<Rightarrow>
                     Some (boolean_index view (or_mask (or_mask in_title in_director) in_cast)))))
      else Some view)"

definition select_rows :: "(row \<Rightarrow> cell) \<Rightarrow> string \<Rightarrow> row list \<Rightarrow> row list option" where
  "select_rows col selected view =
     (if selected \<noteq> ''All''
      then map_option (boolean_index view) (str_contains (map col view) selected True)
      else Some view)"

definition detailed_df :: "widgets \<Rightarrow> row list \<Rightarrow> row list option" where
  "detailed_df w view =
     (case search_rows (search_query w) view of
        None \<Rightarrow> None
      | Some d1 \<Rightarrow>
         (case select_rows listed_in (selected_genre w) d1 of
            None \<Rightarrow> None
          | Some d2 \<Rightarrow> select_rows country (selected_country w) d2))"

text \<open>
  What the detail tab shows for \<open>detailed_df\<close>: four metrics, the line
  \<open>Displaying n titles\<close>, and one card for each row of \<open>detailed_df.head(100)\<close>.
  \<open>int(mean)\<close> cuts towards zero and raises when the frame has rows but no year;
  the mean is taken exactly.
\<close>

record detail_page =
  filtered_results :: nat
  average_release_year :: int
  movies :: nat
  tv_shows :: nat
  displaying :: nat
  cards :: "row list"

definition int_mean :: "int list \<Rightarrow> int" where
  "int_mean ys = (let s = sum_list ys in sgn s * (\<bar>s\<bar> div int (length ys)))"

definition detail_view :: "row list \<Rightarrow> py_error + detail_page" where
  "detail_view d =
     (if d \<noteq> [] \<and> dropna (map release_year d) = [] then Inl ValueError
      else Inr \<lparr> filtered_results = length d,
                 average_release_year =
                   (if d \<noteq> [] then int_mean (dropna (map release_year d)) else 0),
                 movies = length (filter (\<lambda>r. type r = Some ''Movie'') d),
                 tv_shows = length (filter (\<lambda>r. type r = Some ''TV Show'') d),
                 displaying = length d,
                 cards = head 100 d \<rparr>)"

section \<open>Sample data\<close>

text \<open>
  A catalog row and a line of the file for the worked examples: a film with the given
  title, cast, country, release year and date, and a line with the given title,
  country, date and year.
\<close>

definition example_row :: "string \<Rightarrow> cell \<Rightarrow> cell \<Rightarrow> int option \<Rightarrow> date option \<Rightarrow> row" where
  "example_row t ca co y d =
     \<lparr> type = Some ''Movie'', title = Some t, director = None, cast = ca, country = co,
       date_added = d, release_year = y, rating = Some ''PG-13'',
       duration = Some ''90 min'', listed_in = Some ''Dramas'', description = None,
       year_added = map_option year d, month_added = map_option month d \<rparr>"

definition example_line :: "string \<Rightarrow> cell \<Rightarrow> cell \<Rightarrow> cell \<Rightarrow> csv_row" where
  "example_line t co d y =
     \<lparr> csv_type = Some ''Movie'', csv_title = Some t, csv_director = None, csv_cast = None,
       csv_country = co, csv_date_added = d, csv_release_year = y,
       csv_rating = Some ''PG-13'', csv_duration = Some ''90 min'',
       csv_listed_in = Some ''Dramas'', csv_description = None \<rparr>"

definition example_widgets :: "cell list \<Rightarrow> cell list \<Rightarrow> int \<times> int \<Rightarrow> string \<Rightarrow> widgets" where
  "example_widgets ct rs yr q =
     \<lparr> content_type = ct, ratings = rs, year_range = yr,
       search_query = q, selected_genre = ''All'', selected_country = ''All'' \<rparr>"

text \<open>
  Stand-ins for the two parsers in the worked examples: they read the one date and
  the four-digit years that the examples use and give \<open>None\<close> for any other
  cell.
\<close>

definition example_to_datetime :: "cell list \<Rightarrow> date option list" where
  "example_to_datetime col =
     map (\<lambda>c. if c = Some ''September 25, 2021''
              then Some \<lparr> year = 2021, month = 9, day = 25 \<rparr> else None) col"

definition example_to_numeric :: "cell list \<Rightarrow> int option list" where
  "example_to_numeric col =
     map (\<lambda>c. if c = Some ''2020'' then Some 2020 else if c = Some ''2021'' then Some 2021
              else None) col"

section \<open>Properties of the frequency tables\<close>

lemma set_first_seen: "set (first_seen xs) = set xs"
  by (induction xs) auto

lemma distinct_first_seen: "distinct (first_seen xs)"
  by (induction xs) (auto simp: distinct_removeAll)

lemma first_seen_snoc:
  "first_seen (xs @ [x]) = (if x \<in> set xs then first_seen xs else first_seen xs @ [x])"
  by (induction xs) (auto simp: set_first_seen)

lemma bump_map_present:
  "distinct ks \<Longrightarrow> x \<in> set ks \<Longrightarrow>
   bump x (map (\<lambda>k. (k, f k)) ks) = map (\<lambda>k. (k, if k = x then Suc (f k) else f k)) ks"
  by (induction ks) auto

lemma bump_map_absent:
  "x \<notin> set ks \<Longrightarrow> bump x (map (\<lambda>k. (k, f k)) ks) = map (\<lambda>k. (k, f k)) ks @ [(x, 1)]"
  by (induction ks) auto

lemma tally_snoc: "tally (xs @ [x]) = bump x (tally xs)"
  by (simp add: tally_def)

lemma tally_eq: "tally xs = map (\<lambda>k. (k, count_list xs k)) (first_seen xs)"
proof (induction xs rule: rev_induct)
  case Nil
  show ?case by (simp add: tally_def)
next
  case (snoc x xs)
  show ?case
  proof (cases "x \<in> set xs")
    case True
    then have "bump x (tally xs) =
        map (\<lambda>k. (k, if k = x then Suc (count_list xs k) else count_list xs k)) (first_seen xs)"
      using snoc.IH bump_map_present [of "first_seen xs" x "count_list xs"]
      by (simp add: distinct_first_seen set_first_seen)
    with True show ?thesis
      by (simp add: tally_snoc first_seen_snoc)
  next
    case False
    then have "bump x (tally xs) = map (\<lambda>k. (k, count_list xs k)) (first_seen xs) @ [(x, 1)]"
      using snoc.IH bump_map_absent [of x "first_seen xs" "count_list xs"]
      by (simp add: set_first_seen)
    with False show ?thesis
      by (auto simp: tally_snoc first_seen_snoc set_first_seen count_list_0_iff)
  qed
qed

lemma value_counts_keys: "map fst (tally xs) = first_seen xs"
  by (simp add: tally_eq comp_def)

lemma set_value_counts:
  "set (value_counts xs) = (\<lambda>k. (k, count_list xs k)) ` set xs"
  by (simp add: value_counts_def tally_eq set_first_seen)

lemma distinct_value_counts: "distinct (map fst (value_counts xs))"
proof -
  have "distinct (map fst (tally xs))"
    by (simp add: value_counts_keys distinct_first_seen)
  then show ?thesis
    by (simp add: value_counts_def distinct_map)
qed

lemma sorted_value_counts: "sorted_wrt (\<lambda>a b. snd b \<le> snd a) (value_counts xs)"
proof -
  have "sorted (map (\<lambda>kc. - int (snd kc)) (value_counts xs))"
    unfolding value_counts_def by (rule sorted_sort_key)
  then show ?thesis
    by (simp add: sorted_map)
qed

lemma ties_value_counts:
  "map fst (filter (\<lambda>kc. snd kc = c) (value_counts xs)) =
   filter (\<lambda>k. count_list xs k = c) (first_seen xs)"
proof -
  have "filter (\<lambda>kc. snd kc = c) (value_counts xs) = filter (\<lambda>kc. snd kc = c) (tally xs)"
    using sort_key_stable [of "\<lambda>kc. - int (snd kc)" "- int c" "tally xs"]
    by (simp add: value_counts_def)
  then show ?thesis
    by (simp add: tally_eq filter_map comp_def)
qed


lemma contains_str_Cons:
  "contains_str sep (c # cs) = (prefix sep (c # cs) \<or> contains_str sep cs)"
  by (auto simp: contains_str_def)

lemma split_from_no_sep:
  "\<not> contains_str sep s \<Longrightarrow> split_from sep acc s = [rev acc @ s]"
  by (induction s arbitrary: acc) (simp_all add: contains_str_Cons)

lemma cell_items_eq:
  "sep \<noteq> [] \<Longrightarrow> cell_items sep items = Inr (map strip (split_from sep [] items))"
  by (simp add: cell_items_def split_def split_from_no_sep)

lemma collect_items_eq:
  "sep \<noteq> [] \<Longrightarrow>
   collect_items sep all_items rest =
     Inr (all_items @ concat (map (\<lambda>s. map strip (split_from sep [] s)) rest))"
  by (induction rest arbitrary: all_items) (simp_all add: cell_items_eq)

lemma genre_counts_eq: "extract_top_items col 15 '','' = Inr (genre_counts col)"
proof -
  have "split_comma = (\<lambda>s. map strip (split_from '','' [] s))"
    by (rule ext) (simp add: split_comma_def)
  then show ?thesis
    by (simp add: extract_top_items_def collect_items_eq genre_counts_def all_genres_def)
qed

text \<open>
  C1 (as amended).  For a non-empty separator, \<open>extract_top_items\<close> splits every
  present cell on the separator and strips each piece; the pieces, empty ones
  included, are the tokens.  The full table has one line for each distinct token with
  the number of its occurrences, is sorted by count, largest first, and lists tokens
  of equal count in the order in which they are first met; the result is its first
  \<open>top_n\<close> lines.  The genre table of the dashboard is the same computation with the
  comma and fifteen lines.
\<close>

theorem top_tokens_table:
  assumes "sep \<noteq> []"
  shows "let tokens = concat (map (\<lambda>s. map strip (split_from sep [] s)) (dropna series));
             table = value_counts tokens
         in extract_top_items series top_n sep = Inr (take top_n table) \<and>
            set table = (\<lambda>k. (k, count_list tokens k)) ` set tokens \<and>
            distinct (map fst table) \<and>
            sorted_wrt (\<lambda>a b. snd b \<le> snd a) table \<and>
            (\<forall>c. map fst (filter (\<lambda>kc. snd kc = c) table) =
                 filter (\<lambda>k. count_list tokens k = c) (first_seen tokens)) \<and>
            extract_top_items listed_in_col 15 '','' = Inr (genre_counts listed_in_col)"
proof -
  have "extract_top_items series top_n sep =
      Inr (take top_n (value_counts
        (concat (map (\<lambda>s. map strip (split_from sep [] s)) (dropna series)))))"
    using assms by (simp add: extract_top_items_def collect_items_eq head_def)
  then show ?thesis
    by (simp add: Let_def set_value_counts distinct_value_counts sorted_value_counts
        ties_value_counts genre_counts_eq)
qed

theorem top_tokens_table_witness:
  "extract_top_items [Some ''Drama, Comedy'', Some ''Drama'', Some ''Action''] 3 '','' =
     Inr [(''Drama'', 2), (''Comedy'', 1), (''Action'', 1)]"
proof -
  have v: "value_counts [''Drama'', ''Comedy'', ''Drama'', ''Action''] =
      [(''Drama'', 2), (''Comedy'', 1), (''Action'', 1)]"
    by (simp add: value_counts_def tally_def)
  have t: "concat (map (\<lambda>s. map strip (split_from '','' [] s))
      (dropna [Some ''Drama, Comedy'', Some ''Drama'', Some ''Action''])) =
      [''Drama'', ''Comedy'', ''Drama'', ''Action'']"
    by (simp add: dropna_def List.map_filter_def strip_def isspace_def)
  show ?thesis
    using top_tokens_table [of "'',''" "[Some ''Drama, Comedy'', Some ''Drama'', Some ''Action'']" 3]
    by (simp add: Let_def t v)
qed

text \<open>
  The claim as written has the empty tokens discarded.  They are tallied: a cell
  that ends in the separator, or has two separators with only blanks between them,
  puts the empty token in the table.
\<close>

theorem top_tokens_empty_counterexample:
  "extract_top_items [Some ''Drama,'', Some ''Drama''] 3 '','' = Inr [(''Drama'', 2), ('''', 1)] \<and>
   genre_counts [Some ''Drama, , Comedy''] = [(''Drama'', 1), ('''', 1), (''Comedy'', 1)]"
  by (simp add: extract_top_items_def dropna_def List.map_filter_def cell_items_def
      contains_str_def split_def strip_def isspace_def head_def value_counts_def tally_def
      genre_counts_def all_genres_def split_comma_def)

section \<open>Properties of the filters\<close>

lemma boolean_index_map: "boolean_index d (map P d) = filter P d"
  by (induction d) (simp_all add: boolean_index_def)

lemma and_mask_map: "and_mask (map P d) (map Q d) = map (\<lambda>r. P r \<and> Q r) d"
  by (induction d) (simp_all add: and_mask_def)

lemma or_mask_map: "or_mask (map P d) (map Q d) = map (\<lambda>r. P r \<or> Q r) d"
  by (induction d) (simp_all add: or_mask_def)

lemma set_boolean_index: "set (boolean_index d keep) \<subseteq> set d"
  by (auto simp: boolean_index_def dest: set_zip_leftD)

lemma filtered_df_filter:
  "filtered_df (apply_filters w d) =
     filter (\<lambda>r. type r \<in> set (content_type w) \<and> rating r \<in> set (ratings w) \<and>
                 (\<exists>y. release_year r = Some y \<and> fst (year_range w) \<le> y \<and> y \<le> snd (year_range w))) d"
proof -
  define keeps where "keeps = (\<lambda>r :: row.
     (type r \<in> set (content_type w) \<and> rating r \<in> set (ratings w) \<and>
      (case release_year r of None \<Rightarrow> False | Some y \<Rightarrow> fst (year_range w) \<le> y)) \<and>
     (case release_year r of None \<Rightarrow> False | Some y \<Rightarrow> y \<le> snd (year_range w)))"
  have "filtered_df (apply_filters w d) = filter keeps d"
    by (simp add: apply_filters_def isin_def ge_col_def le_col_def and_mask_map
        boolean_index_map keeps_def)
  also have "keeps = (\<lambda>r :: row. type r \<in> set (content_type w) \<and> rating r \<in> set (ratings w) \<and>
                 (\<exists>y. release_year r = Some y \<and> fst (year_range w) \<le> y \<and> y \<le> snd (year_range w)))"
    by (rule ext) (auto simp: keeps_def split: option.splits)
  finally show ?thesis .
qed

text \<open>
  C3.  The view keeps, in catalog order, exactly the rows whose type and rating are
  selected and whose release year is present and lies between the two bounds, both
  included; no row of the view has an absent release year.  With every type and
  rating selected, the range 2010 to 2021 on rows of 2005, 2015, 2021 and no year
  keeps the rows of 2015 and 2021.
\<close>

theorem year_range_filter:
  "filtered_df (apply_filters w d) =
     filter (\<lambda>r. type r \<in> set (content_type w) \<and> rating r \<in> set (ratings w) \<and>
                 (\<exists>y. release_year r = Some y \<and> fst (year_range w) \<le> y \<and> y \<le> snd (year_range w))) d \<and>
   (\<forall>r \<in> set (filtered_df (apply_filters w d)). release_year r \<noteq> None)"
  by (auto simp: filtered_df_filter)

theorem year_range_filter_witness:
  "filtered_df (apply_filters (example_widgets [Some ''Movie''] [Some ''PG-13''] (2010, 2021) '''')
     [example_row ''A'' None None (Some 2005) None,
      example_row ''B'' None None (Some 2015) None,
      example_row ''C'' None None (Some 2021) None,
      example_row ''D'' None None None None]) =
   [example_row ''B'' None None (Some 2015) None, example_row ''C'' None None (Some 2021) None]"
  using year_range_filter [of "example_widgets [Some ''Movie''] [Some ''PG-13''] (2010, 2021) ''''"
     "[example_row ''A'' None None (Some 2005) None,
      example_row ''B'' None None (Some 2015) None,
      example_row ''C'' None None (Some 2021) None,
      example_row ''D'' None None None None]"]
  by (simp add: example_widgets_def example_row_def)

text \<open>
  C5.  With no content type selected, or no rating selected, the view is empty,
  whatever the catalog and the other widgets are.
\<close>

theorem none_selected_empty:
  "content_type w = [] \<or> ratings w = [] \<Longrightarrow> filtered_df (apply_filters w d) = []"
  by (auto simp: filtered_df_filter)

theorem none_selected_empty_witness:
  "filtered_df (apply_filters (example_widgets [] [Some ''PG-13''] (2010, 2021) '''')
     [example_row ''B'' None None (Some 2015) None]) = [] \<and>
   filtered_df (apply_filters (example_widgets [Some ''Movie''] [] (2010, 2021) '''')
     [example_row ''B'' None None (Some 2015) None]) = []"
  using none_selected_empty [of "example_widgets [] [Some ''PG-13''] (2010, 2021) ''''"
          "[example_row ''B'' None None (Some 2015) None]"]
        none_selected_empty [of "example_widgets [Some ''Movie''] [] (2010, 2021) ''''"
          "[example_row ''B'' None None (Some 2015) None]"]
  by (simp add: example_widgets_def)

text \<open>
  C8.  Filtering the view again with the same widgets gives the view back, and the
  catalog of the session is the catalog that was given.
\<close>

theorem filter_idempotent:
  "filtered_df (apply_filters w (filtered_df (apply_filters w d))) = filtered_df (apply_filters w d) \<and>
   df (apply_filters w d) = d"
  by (simp add: filtered_df_filter) (simp add: apply_filters_def)

section \<open>Properties of the cleaning\<close>

lemma clean_row_derived:
  "year_added (clean_row fill x) = map_option year (date_added (clean_row fill x)) \<and>
   month_added (clean_row fill x) = map_option month (date_added (clean_row fill x))"
  by (cases x) (simp add: clean_row_def)

lemma clean_columns_derived:
  "r \<in> set (clean_columns fill td tn raw) \<Longrightarrow>
   year_added r = map_option year (date_added r) \<and>
   month_added r = map_option month (date_added r)"
  by (auto simp: clean_columns_def Let_def clean_row_derived)

lemma clean_columns_dates:
  assumes "length (td (map csv_date_added raw)) = length raw"
    and "length (tn (map csv_release_year raw)) = length raw"
  shows "map date_added (clean_columns fill td tn raw) = td (map csv_date_added raw)"
proof -
  have "map (date_added \<circ> clean_row fill) (zip raw (zip ds ys)) = ds"
    if "length ds = length raw" "length ys = length raw" for ds ys
    using that
  proof (induction raw arbitrary: ds ys)
    case Nil
    then show ?case by simp
  next
    case (Cons a raw)
    then show ?case by (cases ds; cases ys) (simp_all add: clean_row_def)
  qed
  with assms show ?thesis
    by (simp add: clean_columns_def Let_def)
qed

text \<open>
  C4.  In every row that \<open>load_data\<close> or \<open>clean_netflix_data\<close> produces,
  \<open>year_added\<close> and \<open>month_added\<close> are the year and the month of
  \<open>date_added\<close> when it is present and are absent when it is absent; by
  \<open>clean_columns_dates\<close> the \<open>date_added\<close> column is the column that
  \<open>to_datetime\<close> returned, absent wherever the text could not be parsed.
\<close>

theorem added_columns_derived:
  assumes "load_data td tn (Inr raw) = (msgs, Inr rows) \<or> clean_netflix_data td tn raw = rows"
    and "r \<in> set rows"
  shows "(case date_added r of
            None \<Rightarrow> year_added r = None \<and> month_added r = None
          | Some d \<Rightarrow> year_added r = Some (year d) \<and> month_added r = Some (month d))"
proof -
  from assms obtain fill where "r \<in> set (clean_columns fill td tn raw)"
    by (auto simp: load_data_def clean_netflix_data_def)
  then show ?thesis
    using clean_columns_derived [of r fill td tn raw] by (simp split: option.split)
qed

theorem added_columns_derived_witness:
  "load_data example_to_datetime example_to_numeric
     (Inr [example_line ''A'' None (Some ''September 25, 2021'') (Some ''2020''),
           example_line ''B'' None (Some ''someday'') (Some ''2021''),
           example_line ''C'' None None (Some ''2021'')]) =
   ([], Inr [example_row ''A'' None (Some ''Unknown'') (Some 2020)
               (Some \<lparr> year = 2021, month = 9, day = 25 \<rparr>),
             example_row ''B'' None (Some ''Unknown'') (Some 2021) None,
             example_row ''C'' None (Some ''Unknown'') (Some 2021) None]) \<and>
   year_added (example_row ''A'' None (Some ''Unknown'') (Some 2020)
               (Some \<lparr> year = 2021, month = 9, day = 25 \<rparr>)) = Some 2021 \<and>
   month_added (example_row ''A'' None (Some ''Unknown'') (Some 2020)
               (Some \<lparr> year = 2021, month = 9, day = 25 \<rparr>)) = Some 9 \<and>
   year_added (example_row ''B'' None (Some ''Unknown'') (Some 2021) None) = None \<and>
   month_added (example_row ''B'' None (Some ''Unknown'') (Some 2021) None) = None"
proof -
  let ?raw = "[example_line ''A'' None (Some ''September 25, 2021'') (Some ''2020''),
           example_line ''B'' None (Some ''someday'') (Some ''2021''),
           example_line ''C'' None None (Some ''2021'')]"
  let ?a = "example_row ''A'' None (Some ''Unknown'') (Some 2020)
               (Some \<lparr> year = 2021, month = 9, day = 25 \<rparr>)"
  let ?b = "example_row ''B'' None (Some ''Unknown'') (Some 2021) None"
  let ?c = "example_row ''C'' None (Some ''Unknown'') (Some 2021) None"
  have l: "load_data example_to_datetime example_to_numeric (Inr ?raw) = ([], Inr [?a, ?b, ?c])"
    by (simp add: load_data_def clean_columns_def clean_row_def example_to_datetime_def
        example_to_numeric_def example_line_def example_row_def fillna_def)
  have da: "date_added ?a = Some \<lparr> year = 2021, month = 9, day = 25 \<rparr>"
    and db: "date_added ?b = None"
    by (simp_all add: example_row_def)
  have "year_added ?a = Some 2021 \<and> month_added ?a = Some 9"
    using added_columns_derived [of example_to_datetime example_to_numeric ?raw "[]"
        "[?a, ?b, ?c]" ?a] l da
    by simp
  moreover have "year_added ?b = None \<and> month_added ?b = None"
    using added_columns_derived [of example_to_datetime example_to_numeric ?raw "[]"
        "[?a, ?b, ?c]" ?b] l db
    by simp
  ultimately show ?thesis using l by simp
qed

section \<open>Properties of loading\<close>

text \<open>
  C2 (as amended).  When the file is missing, \<open>load_data\<close> shows the message and
  returns the empty frame, and the script stops with that message.  Any other
  exception of \<open>read_csv\<close> is not caught: \<open>load_data\<close> shows nothing and returns
  nothing, and the script ends with the exception.  Whenever the script gets as far as
  the filtered view, the file was read and the catalog is the whole cleaned file and
  is not empty.
\<close>

theorem load_failure:
  "load_data td tn (Inl FileNotFoundError) = ([not_found_message], Inr []) \<and>
   run td tn (Inl FileNotFoundError) w = Stopped [not_found_message] \<and>
   (e \<noteq> FileNotFoundError \<longrightarrow>
      load_data td tn (Inl e) = ([], Inl e) \<and> run td tn (Inl e) w = Uncaught e) \<and>
   (run td tn read_csv w = Rendered msgs s \<longrightarrow>
      (\<exists>raw. read_csv = Inr raw \<and> msgs = [] \<and> df s = clean_columns False td tn raw \<and>
             df s \<noteq> []))"
proof -
  have "load_data td tn (Inl FileNotFoundError) = ([not_found_message], Inr [])"
    by (simp add: load_data_def)
  moreover from this have "run td tn (Inl FileNotFoundError) w = Stopped [not_found_message]"
    by (simp add: run_def)
  moreover have "load_data td tn (Inl e) = ([], Inl e) \<and> run td tn (Inl e) w = Uncaught e"
    if "e \<noteq> FileNotFoundError"
    using that by (simp add: load_data_def run_def)
  moreover have "\<exists>raw. read_csv = Inr raw \<and> msgs = [] \<and>
      df s = clean_columns False td tn raw \<and> df s \<noteq> []"
    if r: "run td tn read_csv w = Rendered msgs s"
  proof (cases read_csv)
    case (Inl e)
    with r show ?thesis
      by (simp add: run_def load_data_def split: if_splits)
  next
    case (Inr raw)
    with r show ?thesis
      by (auto simp: run_def load_data_def apply_filters_def split: if_splits)
  qed
  ultimately show ?thesis by blast
qed

theorem load_failure_witness:
  "run example_to_datetime example_to_numeric (Inl PermissionError)
     (example_widgets [Some ''Movie''] [Some ''PG-13''] (2010, 2021) '''') = Uncaught PermissionError \<and>
   run example_to_datetime example_to_numeric
     (Inr [example_line ''A'' None (Some ''September 25, 2021'') (Some ''2020'')])
     (example_widgets [Some ''Movie''] [Some ''PG-13''] (2010, 2021) '''') =
   Rendered []
     \<lparr> df = [example_row ''A'' None (Some ''Unknown'') (Some 2020)
               (Some \<lparr> year = 2021, month = 9, day = 25 \<rparr>)],
       filtered_df = [example_row ''A'' None (Some ''Unknown'') (Some 2020)
               (Some \<lparr> year = 2021, month = 9, day = 25 \<rparr>)] \<rparr> \<and>
   clean_columns False example_to_datetime example_to_numeric
     [example_line ''A'' None (Some ''September 25, 2021'') (Some ''2020'')] =
   [example_row ''A'' None (Some ''Unknown'') (Some 2020)
               (Some \<lparr> year = 2021, month = 9, day = 25 \<rparr>)]"
proof -
  let ?w = "example_widgets [Some ''Movie''] [Some ''PG-13''] (2010, 2021) ''''"
  let ?raw = "[example_line ''A'' None (Some ''September 25, 2021'') (Some ''2020'')]"
  let ?a = "example_row ''A'' None (Some ''Unknown'') (Some 2020)
               (Some \<lparr> year = 2021, month = 9, day = 25 \<rparr>)"
  have c: "clean_columns False example_to_datetime example_to_numeric ?raw = [?a]"
    by (simp add: clean_columns_def clean_row_def example_to_datetime_def
        example_to_numeric_def example_line_def example_row_def fillna_def)
  have f: "apply_filters ?w [?a] = \<lparr> df = [?a], filtered_df = [?a] \<rparr>"
    by (simp add: apply_filters_def example_widgets_def example_row_def isin_def ge_col_def
        le_col_def and_mask_def boolean_index_def)
  have y: "dropna (map release_year [?a]) = [2020]"
    by (simp add: dropna_def List.map_filter_def example_row_def)
  have r: "run example_to_datetime example_to_numeric (Inr ?raw) ?w =
      Rendered [] \<lparr> df = [?a], filtered_df = [?a] \<rparr>"
    using y by (simp add: run_def load_data_def c f)
  show ?thesis
    using load_failure [of example_to_datetime example_to_numeric ?w PermissionError
        "Inr ?raw" "[]" "\<lparr> df = [?a], filtered_df = [?a] \<rparr>"] r
    by simp
qed

text \<open>
  The claim as written has \<open>load_data\<close> return the empty frame and report a
  message for an unreadable file as well.  For a file that cannot be opened it
  reports nothing and returns no frame.
\<close>

theorem load_unreadable_counterexample:
  "load_data example_to_datetime example_to_numeric (Inl PermissionError) =
     ([], Inl PermissionError) \<and>
   snd (load_data example_to_datetime example_to_numeric (Inl PermissionError)) \<noteq> Inr [] \<and>
   fst (load_data example_to_datetime example_to_numeric (Inl PermissionError)) = []"
  by (simp add: load_data_def)

section \<open>Properties of the country table\<close>

lemma dropna_Cons:
  "dropna (c # cs) = (case c of None \<Rightarrow> dropna cs | Some x \<Rightarrow> x # dropna cs)"
  by (simp add: dropna_def List.map_filter_def split: option.split)

lemma dropna_append: "dropna (xs @ ys) = dropna xs @ dropna ys"
  by (simp add: dropna_def List.map_filter_def)

lemma set_dropna: "set (dropna col) = {x. Some x \<in> set col}"
  by (induction col) (auto simp: dropna_Cons dropna_def List.map_filter_def split: option.splits)

lemma concat_map_if:
  "concat (map (\<lambda>s. if P s then f s else []) xs) = concat (map f (filter P xs))"
  by (induction xs) simp_all

lemma all_countries_filter:
  "all_countries col = concat (map split_comma (filter (\<lambda>s. s \<noteq> ''Unknown'') (dropna col)))"
  by (simp add: all_countries_def concat_map_if)

lemma all_countries_skip:
  "all_countries (xs @ Some ''Unknown'' # ys) = all_countries (xs @ ys)"
  by (simp add: all_countries_filter dropna_append dropna_Cons)

text \<open>
  C9.  The country table is tallied from the present cells other than the cell
  \<open>Unknown\<close>, each split on the comma.  A row whose country is \<open>Unknown\<close>
  adds nothing to it; a line of the file without a country is such a row after the
  load; and when \<open>Unknown\<close> does stand in the table, it is a piece of some cell
  that is not the cell \<open>Unknown\<close>.
\<close>

theorem country_counts_skip_unknown:
  "all_countries (map country view) =
     concat (map split_comma (filter (\<lambda>s. s \<noteq> ''Unknown'') (dropna (map country view)))) \<and>
   (country r = Some ''Unknown'' \<longrightarrow>
      country_counts (before @ r # after) = country_counts (before @ after)) \<and>
   (csv_country line = None \<longrightarrow> country (clean_row fill (line, d, y)) = Some ''Unknown'') \<and>
   ((''Unknown'', n) \<in> set (country_counts view) \<longrightarrow>
      (\<exists>r \<in> set view. \<exists>s. country r = Some s \<and> s \<noteq> ''Unknown'' \<and>
                            ''Unknown'' \<in> set (split_comma s)))"
proof -
  have "country_counts (before @ r # after) = country_counts (before @ after)"
    if "country r = Some ''Unknown''"
    using that by (simp add: country_counts_def all_countries_skip)
  moreover have "country (clean_row fill (line, d, y)) = Some ''Unknown''"
    if "csv_country line = None"
    using that by (simp add: clean_row_def fillna_def)
  moreover have "\<exists>r \<in> set view. \<exists>s. country r = Some s \<and> s \<noteq> ''Unknown'' \<and>
                            ''Unknown'' \<in> set (split_comma s)"
    if "(''Unknown'', n) \<in> set (country_counts view)"
  proof -
    from that have "(''Unknown'', n) \<in> set (value_counts (all_countries (map country view)))"
      by (auto simp: country_counts_def head_def dest: in_set_takeD)
    then have "''Unknown'' \<in> set (all_countries (map country view))"
      by (auto simp: set_value_counts)
    then obtain s where "s \<in> set (dropna (map country view))" "s \<noteq> ''Unknown''"
        "''Unknown'' \<in> set (split_comma s)"
      by (auto simp: all_countries_filter)
    moreover from this obtain r where "r \<in> set view" "country r = Some s"
      by (auto simp: set_dropna)
    ultimately show ?thesis
      by blast
  qed
  ultimately show ?thesis
    by (simp add: all_countries_filter)
qed

theorem country_counts_skip_unknown_witness:
  "country_counts [example_row ''A'' None (Some ''India'') None None,
                   example_row ''B'' None (Some ''Unknown'') None None,
                   example_row ''C'' None (Some ''Unknown, India'') None None] =
   country_counts [example_row ''A'' None (Some ''India'') None None,
                   example_row ''C'' None (Some ''Unknown, India'') None None] \<and>
   country_counts [example_row ''A'' None (Some ''India'') None None,
                   example_row ''C'' None (Some ''Unknown, India'') None None] =
     [(''India'', 2), (''Unknown'', 1)] \<and>
   country (clean_row False (example_line ''B'' None None None, None, None)) = Some ''Unknown''"
proof -
  let ?a = "example_row ''A'' None (Some ''India'') None None"
  let ?b = "example_row ''B'' None (Some ''Unknown'') None None"
  let ?c = "example_row ''C'' None (Some ''Unknown, India'') None None"
  have b: "country ?b = Some ''Unknown''"
    and l: "csv_country (example_line ''B'' None None None) = None"
    by (simp_all add: example_row_def example_line_def)
  have v: "country_counts [?a, ?c] = [(''India'', 2), (''Unknown'', 1)]"
    by (simp add: country_counts_def all_countries_def example_row_def dropna_def
        List.map_filter_def split_comma_def strip_def isspace_def head_def value_counts_def
        tally_def)
  show ?thesis
    using country_counts_skip_unknown [of "[?a, ?c]" ?b "[?a]" "[?c]"
        "example_line ''B'' None None None" False None None 1] b l v
    by simp
qed

section \<open>Properties of the grouped counts\<close>

lemma index_of_Some:
  "x \<in> set xs \<Longrightarrow> \<exists>i. index_of x xs = Some i \<and> i < length xs \<and> xs ! i = x"
  by (induction xs) auto

lemma group_keys_Cons:
  "group_keys (r # view) =
     (case year_added r of
        None \<Rightarrow> group_keys view
      | Some y \<Rightarrow> (case month_added r of None \<Rightarrow> group_keys view
                                        | Some m \<Rightarrow> (y, m) # group_keys view))"
  by (simp add: group_keys_def List.map_filter_def split: option.split)

lemma count_group_keys:
  "count_list (group_keys view) (y, m) =
     length (filter (\<lambda>r. year_added r = Some y \<and> month_added r = Some m) view)"
  by (induction view) (auto simp: group_keys_Cons group_keys_def List.map_filter_def split: option.split)

lemma set_group_keys:
  "set (group_keys view) =
     {(y, m). \<exists>r \<in> set view. year_added r = Some y \<and> month_added r = Some m}"
  by (induction view) (auto simp: group_keys_Cons group_keys_def List.map_filter_def split: option.splits)

lemma map_of_counts:
  "map_of (map (\<lambda>k. (k, f k)) ks) k = (if k \<in> set ks then Some (f k) else None)"
  by (induction ks) auto

lemma heatmap_cell:
  "(case map_of (heatmap_data view) (y, m) of None \<Rightarrow> 0 | Some c \<Rightarrow> c) =
     length (filter (\<lambda>r. year_added r = Some y \<and> month_added r = Some m) view)"
proof -
  have "(case map_of (heatmap_data view) (y, m) of None \<Rightarrow> 0 | Some c \<Rightarrow> c) =
      count_list (group_keys view) (y, m)"
    by (simp add: heatmap_data_def Let_def map_of_counts count_list_0_iff)
  then show ?thesis by (simp add: count_group_keys)
qed

lemma heatmap_index:
  "set (index (heatmap_pivot view)) = snd ` set (group_keys view)"
  by (force simp: heatmap_pivot_def heatmap_data_def Let_def image_iff)

lemma heatmap_columns:
  "set (columns (heatmap_pivot view)) = fst ` set (group_keys view)"
  by (force simp: heatmap_pivot_def heatmap_data_def Let_def image_iff)

lemma heatmap_loc:
  assumes "m \<in> set (index (heatmap_pivot view))" and "y \<in> set (columns (heatmap_pivot view))"
  shows "loc (heatmap_pivot view) m y =
     Some (length (filter (\<lambda>r. year_added r = Some y \<and> month_added r = Some m) view))"
proof -
  let ?t = "heatmap_pivot view"
  from assms(1) obtain i where i: "index_of m (index ?t) = Some i" "i < length (index ?t)"
      "index ?t ! i = m"
    using index_of_Some by metis
  from assms(2) obtain j where j: "index_of y (columns ?t) = Some j" "j < length (columns ?t)"
      "columns ?t ! j = y"
    using index_of_Some by metis
  have "cells ?t ! i ! j =
      (case map_of (heatmap_data view) (columns ?t ! j, index ?t ! i) of None \<Rightarrow> 0 | Some c \<Rightarrow> c)"
    using i(2) j(2) by (simp add: heatmap_pivot_def Let_def)
  with i j show ?thesis
    by (simp add: loc_def heatmap_cell)
qed

lemma upto_1_12: "[1..12] = [1, 2, 3, 4, 5, 6, 7, 8, 9, 10, 11, 12 :: int]"
  by code_simp

lemma dropna_Nil: "dropna [] = []"
  by (simp add: dropna_def List.map_filter_def)

lemma count_dropna_months:
  "count_list (dropna (map month_added view)) i =
     length (filter (\<lambda>r. month_added r = Some i) view)"
  by (induction view) (auto simp: dropna_Nil dropna_Cons split: option.split)

lemma map_of_value_counts:
  "(case map_of (value_counts xs) k of None \<Rightarrow> 0 | Some c \<Rightarrow> c) = count_list xs k"
proof (cases "k \<in> set xs")
  case True
  then have "(k, count_list xs k) \<in> set (value_counts xs)"
    by (simp add: set_value_counts)
  then have "map_of (value_counts xs) k = Some (count_list xs k)"
    by (simp add: distinct_value_counts)
  then show ?thesis by simp
next
  case False
  then have "k \<notin> fst ` set (value_counts xs)"
    by (auto simp: set_value_counts)
  then have "map_of (value_counts xs) k = None"
    by (simp add: map_of_eq_None_iff)
  with False show ?thesis by (simp add: count_list_0_iff)
qed

lemma map_of_monthly_added:
  "map_of (monthly_added view) = map_of (value_counts (dropna (map month_added view)))"
proof -
  let ?t = "value_counts (dropna (map month_added view))"
  have "distinct (map fst (sort_key fst ?t))"
    using distinct_value_counts [of "dropna (map month_added view)"]
    by (simp add: distinct_map)
  then show ?thesis
    unfolding monthly_added_def
    by (rule map_of_inject_set [THEN iffD2]) (simp_all add: distinct_value_counts)
qed

lemma monthly_data_counts:
  "map snd (monthly_data view) =
     map (\<lambda>i. length (filter (\<lambda>r. month_added r = Some i) view)) [1..12]"
proof -
  have "length month_names = length [1..12::int]"
    by (simp add: month_names_def upto_1_12)
  then show ?thesis
    by (simp add: monthly_data_def map_of_monthly_added map_of_value_counts count_dropna_months)
qed

lemma set_filtered_df: "set (filtered_df (apply_filters w d)) \<subseteq> set d"
  by (auto simp: filtered_df_filter)

lemma loaded_view_paired:
  assumes "set view \<subseteq> set (filtered_df (apply_filters w (clean_columns fill td tn raw)))"
  shows "\<forall>r \<in> set view. (year_added r = None) = (month_added r = None)"
proof
  fix r assume "r \<in> set view"
  with assms have "r \<in> set (clean_columns fill td tn raw)"
    using set_filtered_df by blast
  then show "(year_added r = None) = (month_added r = None)"
    using clean_columns_derived [of r fill td tn raw] by simp
qed

text \<open>
  C7.  In a view whose rows have \<open>year_added\<close> and \<open>month_added\<close> both present
  or both absent, as every view of a loaded catalog has (\<open>loaded_view_paired\<close>),
  each month that occurs is a row label of
  the heatmap table and each year that occurs a column label, and the cell of a month
  and a year holds the number of rows with that month and that year: 0 when no row
  has both.  The monthly table has a line for each of the twelve months, with the
  number of rows of that month, 0 included.
\<close>

theorem heatmap_zero_cells:
  assumes "\<forall>r \<in> set view. (year_added r = None) = (month_added r = None)"
    and "r1 \<in> set view" and "month_added r1 = Some m"
    and "r2 \<in> set view" and "year_added r2 = Some y"
  shows "m \<in> set (index (heatmap_pivot view)) \<and>
         y \<in> set (columns (heatmap_pivot view)) \<and>
         loc (heatmap_pivot view) m y =
           Some (length (filter (\<lambda>r. year_added r = Some y \<and> month_added r = Some m) view)) \<and>
         ((\<forall>r \<in> set view. \<not> (year_added r = Some y \<and> month_added r = Some m)) \<longrightarrow>
            loc (heatmap_pivot view) m y = Some 0) \<and>
         map snd (monthly_data view) =
           map (\<lambda>i. length (filter (\<lambda>r. month_added r = Some i) view)) [1..12] \<and>
         length (monthly_data view) = 12"
proof -
  from assms(1-3) obtain y1 where "year_added r1 = Some y1" by force
  with assms(2,3) have "(y1, m) \<in> set (group_keys view)"
    by (auto simp: set_group_keys)
  then have m: "m \<in> set (index (heatmap_pivot view))"
    by (force simp: heatmap_index)
  from assms(1,4,5) obtain m2 where "month_added r2 = Some m2" by force
  with assms(4,5) have "(y, m2) \<in> set (group_keys view)"
    by (auto simp: set_group_keys)
  then have y: "y \<in> set (columns (heatmap_pivot view))"
    by (force simp: heatmap_columns)
  note l = heatmap_loc [OF m y]
  have z: "loc (heatmap_pivot view) m y = Some 0"
    if "\<forall>r \<in> set view. \<not> (year_added r = Some y \<and> month_added r = Some m)"
  proof -
    from that have "filter (\<lambda>r. year_added r = Some y \<and> month_added r = Some m) view = []"
      by (simp add: filter_empty_conv)
    with l show ?thesis by simp
  qed
  have "length (monthly_data view) = 12"
    by (simp add: monthly_data_def month_names_def upto_1_12)
  with m y l z show ?thesis
    by (simp add: monthly_data_counts)
qed

theorem heatmap_zero_cells_witness:
  "loc (heatmap_pivot
     [example_row ''A'' None None None (Some \<lparr> year = 2019, month = 3, day = 1 \<rparr>),
      example_row ''B'' None None None (Some \<lparr> year = 2020, month = 5, day = 2 \<rparr>),
      example_row ''C'' None None None None]) 3 2020 = Some 0 \<and>
   heatmap_pivot
     [example_row ''A'' None None None (Some \<lparr> year = 2019, month = 3, day = 1 \<rparr>),
      example_row ''B'' None None None (Some \<lparr> year = 2020, month = 5, day = 2 \<rparr>),
      example_row ''C'' None None None None] =
   \<lparr> index = [3, 5], columns = [2019, 2020], cells = [[1, 0], [0, 1]] \<rparr>"
proof -
  let ?a = "example_row ''A'' None None None (Some \<lparr> year = 2019, month = 3, day = 1 \<rparr>)"
  let ?b = "example_row ''B'' None None None (Some \<lparr> year = 2020, month = 5, day = 2 \<rparr>)"
  let ?c = "example_row ''C'' None None None None"
  have inv: "\<forall>r \<in> set [?a, ?b, ?c]. (year_added r = None) = (month_added r = None)"
    by (simp add: example_row_def)
  have a: "month_added ?a = Some 3" and b: "year_added ?b = Some 2020"
    by (simp_all add: example_row_def)
  have none: "\<forall>r \<in> set [?a, ?b, ?c]. \<not> (year_added r = Some 2020 \<and> month_added r = Some 3)"
    by (simp add: example_row_def)
  have p: "heatmap_pivot [?a, ?b, ?c] =
      \<lparr> index = [3, 5], columns = [2019, 2020], cells = [[1, 0], [0, 1]] \<rparr>"
    by (simp add: heatmap_pivot_def heatmap_data_def group_keys_def List.map_filter_def
        example_row_def Let_def)
  show ?thesis
    using heatmap_zero_cells [OF inv _ a _ b] none p
    by simp
qed

section \<open>Properties of the detail tab\<close>

lemma set_search_rows: "search_rows q view = Some d \<Longrightarrow> set d \<subseteq> set view"
  using set_boolean_index [of view]
  by (auto simp: search_rows_def split: if_splits option.splits)

lemma set_select_rows: "select_rows col sel view = Some d \<Longrightarrow> set d \<subseteq> set view"
  using set_boolean_index [of view]
  by (auto simp: select_rows_def split: if_splits)

lemma set_detailed_df: "detailed_df w view = Some d \<Longrightarrow> set d \<subseteq> set view"
  by (auto simp: detailed_df_def split: option.splits
      dest!: set_search_rows set_select_rows)

lemma dropna_eq_Nil: "dropna col = [] \<longleftrightarrow> (\<forall>c \<in> set col. c = None)"
  by (induction col) (auto simp: dropna_Nil dropna_Cons split: option.splits)

text \<open>
  C10.  For every result of the detail search on a filtered view, the page is
  rendered: the cards are the first 100 rows of the result, in its order, so there
  are at most 100 of them, while the result counts (filtered results, the line
  \<open>Displaying n titles\<close>, films and shows) are taken over the whole result.
\<close>

theorem detail_cards_capped:
  assumes "detailed_df w (filtered_df (apply_filters fw catalog)) = Some d"
  shows "\<exists>p. detail_view d = Inr p \<and>
             cards p = take 100 d \<and>
             length (cards p) = min 100 (length d) \<and>
             filtered_results p = length d \<and>
             displaying p = length d \<and>
             movies p = length (filter (\<lambda>r. type r = Some ''Movie'') d) \<and>
             tv_shows p = length (filter (\<lambda>r. type r = Some ''TV Show'') d)"
proof -
  from assms have "set d \<subseteq> set (filtered_df (apply_filters fw catalog))"
    by (rule set_detailed_df)
  then have "\<forall>r \<in> set d. release_year r \<noteq> None"
    by (auto simp: filtered_df_filter)
  then have "d \<noteq> [] \<longrightarrow> dropna (map release_year d) \<noteq> []"
    by (cases d) (auto simp: dropna_eq_Nil)
  then show ?thesis
    by (auto simp: detail_view_def head_def)
qed

theorem detail_cards_capped_witness:
  "\<exists>p. detail_view (replicate 101 (example_row ''A'' None None (Some 2015) None)) = Inr p \<and>
       length (cards p) = 100 \<and> filtered_results p = 101 \<and> displaying p = 101 \<and>
       movies p = 101 \<and> tv_shows p = 0"
proof -
  let ?r = "example_row ''A'' None None (Some 2015) None"
  let ?w = "example_widgets [Some ''Movie''] [Some ''PG-13''] (2010, 2021) ''''"
  have f: "filtered_df (apply_filters ?w (replicate 101 ?r)) = replicate 101 ?r"
    by (simp add: filtered_df_filter example_widgets_def example_row_def)
  have d: "detailed_df ?w (replicate 101 ?r) = Some (replicate 101 ?r)"
    by (simp add: detailed_df_def search_rows_def select_rows_def example_widgets_def)
  have t: "type ?r = Some ''Movie''"
    by (simp add: example_row_def)
  show ?thesis
    using detail_cards_capped [of ?w ?w "replicate 101 ?r" "replicate 101 ?r"] f d t
    by auto
qed

section \<open>Properties of the detail search\<close>

lemma re_parse_plain: "\<not> list_ex re_special q \<Longrightarrow> re_parse q = Some (map Literal q)"
  by (induction q) (auto simp: re_special_def)

lemma match_here_literal:
  "match_here False (map Literal q) s = prefix (map lower q) (map lower s)"
proof (induction q arbitrary: s)
  case Nil
  show ?case by simp
next
  case (Cons a q)
  then show ?case by (cases s) auto
qed

lemma suffixes_map: "suffixes (map f s) = map (map f) (suffixes s)"
  by (induction s) simp_all

lemma re_search_literal:
  "re_search False (map Literal q) s = contains_str (map lower q) (map lower s)"
  by (simp add: re_search_def contains_str_def suffixes_map match_here_literal list_ex_iff)

lemma str_contains_plain:
  "\<not> list_ex re_special q \<Longrightarrow>
   str_contains col q False =
     Some (map (\<lambda>c. case c of None \<Rightarrow> False
                    | Some s \<Rightarrow> contains_str (map lower q) (map lower s)) col)"
  by (simp add: str_contains_def re_parse_plain re_search_literal split: option.split)

lemma search_plain_query:
  assumes "q \<noteq> []" and "\<not> list_ex re_special q"
  shows "search_rows q view =
     Some (filter (\<lambda>r.
        (case title r of None \<Rightarrow> False | Some s \<Rightarrow> contains_str (map lower q) (map lower s)) \<or>
        (case director r of None \<Rightarrow> False | Some s \<Rightarrow> contains_str (map lower q) (map lower s)) \<or>
        (case cast r of None \<Rightarrow> False | Some s \<Rightarrow> contains_str (map lower q) (map lower s)))
       view)"
  using assms
  by (simp add: search_rows_def str_contains_plain or_mask_map boolean_index_map)

text \<open>
  C6.  The query is handed to \<open>str.contains\<close> as a regular expression.  For a
  query without special characters that is the search for the query as a substring,
  letter case aside (\<open>search_plain_query\<close>): \<open>smith\<close> keeps the row whose cast is
  \<open>John Smith, Jane Doe\<close> and drops the row whose cast is \<open>Jane Doe\<close>.  A dot in
  the query stands for any character: the query \<open>Mr.\<close> keeps a row whose only text is
  the title \<open>Mrs. Serial Killer\<close>, which does not contain \<open>Mr.\<close>.
\<close>

theorem search_query_read_as_regex:
  "detailed_df (example_widgets [] [] (0, 0) ''Mr.'')
     [example_row ''Mrs. Serial Killer'' None None (Some 2020) None] =
   Some [example_row ''Mrs. Serial Killer'' None None (Some 2020) None] \<and>
   \<not> contains_str (map lower ''Mr.'') (map lower ''Mrs. Serial Killer'') \<and>
   search_rows ''smith''
     [example_row ''A'' (Some ''John Smith, Jane Doe'') None (Some 2020) None,
      example_row ''B'' (Some ''Jane Doe'') None (Some 2020) None] =
   Some [example_row ''A'' (Some ''John Smith, Jane Doe'') None (Some 2020) None]"
  by code_simp

end
